theory Spec2Isabelle
  imports Main "HOL-Library.Word"
begin

section \<open>Filter registry and dispatcher (package expressions)\<close>

subsection \<open>Go values, errors and reflected types\<close>

type_synonym byte = "8 word"

text \<open>
  A Go \<^verbatim>\<open>interface{}\<close> value, as far as the dispatcher tells values apart: the type
  assertion \<^verbatim>\<open>.(string)\<close> singles out strings, the type switch on the filter's output
  singles out \<^verbatim>\<open>[]byte\<close>, and a \<^verbatim>\<open>closure{expr, ctx}\<close> pairs a parsed expression
  with a context. A Go string is a sequence of bytes; \<open>string\<close> is a list of 8-bit
  characters. \<open>'x\<close> is the type of parsed expressions, \<open>'c\<close> the type of contexts.
\<close>

datatype ('x, 'c) val =
    VNil
  | VBool bool
  | VInt int
  | VString string
  | VBytes "byte list"
  | VList "('x, 'c) val list"
  | VClosure 'x 'c

text \<open>
  The values the code panics with or returns as \<^verbatim>\<open>error\<close>. \<open>GenericError\<close> is
  \<^verbatim>\<open>generics.GenericError\<close> and \<open>InterpreterError\<close> the string type of the source, each
  with its message; \<open>UndefinedFilter\<close> is \<^verbatim>\<open>errors.UndefinedFilter(name)\<close>;
  \<open>ErrorString\<close> is what \<^verbatim>\<open>fmt.Errorf\<close> builds; \<open>TypeAssertionError\<close> and
  \<open>ReflectPanic\<close> are the run-time panics of a failed type assertion and of a reflect
  call on a value that is not a function; \<open>FilterArityError\<close> carries the number of
  arguments given, the required and the optional count; \<open>HostError\<close> is any other
  error or panic value of the host.
\<close>

datatype go_error =
    GenericError string
  | InterpreterError string
  | UndefinedFilter string
  | ErrorString string
  | TypeAssertionError
  | ReflectPanic
  | FilterArityError nat nat nat
  | HostError string

text \<open>
  \<^verbatim>\<open>reflect.Kind\<close>, as far as \<^verbatim>\<open>DefineFilter\<close> looks at it, and \<^verbatim>\<open>reflect.Type\<close> of a
  parameter: the struct \<^verbatim>\<open>closure\<close>, an interface type with its method names
  (\<open>InterfaceT []\<close> is \<^verbatim>\<open>interface{}\<close>), or any other type by its name.
\<close>

datatype rkind = KFunc | KInvalid | KOther

datatype rtype = ClosureT | InterfaceT "string list" | OtherT string

text \<open>
  A value handed to \<^verbatim>\<open>DefineFilter\<close>, seen through \<^verbatim>\<open>reflect.ValueOf\<close>: its kind, the
  types of its inputs and outputs, and the function itself, which returns its first
  output and its second output (an error, if there is one), or panics.
\<close>

record ('x, 'c) filter_fn =
  kind :: rkind
  ins :: "rtype list"
  outs :: "rtype list"
  body :: "('x, 'c) val list \<Rightarrow> go_error + (('x, 'c) val \<times> go_error option)"

definition NumIn :: "('x, 'c) filter_fn \<Rightarrow> nat" where
  "NumIn fr = length (ins fr)"

definition NumOut :: "('x, 'c) filter_fn \<Rightarrow> nat" where
  "NumOut fr = length (outs fr)"

text \<open>\<^verbatim>\<open>type valueFn func(Context) interface{}\<close>; \<open>Inl\<close> is a panic.\<close>

type_synonym ('x, 'c) valueFn = "'c \<Rightarrow> go_error + ('x, 'c) val"

subsection \<open>DefineFilter\<close>

text \<open>
  The package variable \<^verbatim>\<open>filters\<close> is passed in and returned. A panic leaves it as
  it was.
\<close>

definition DefineFilter ::
  "(string \<rightharpoonup> ('x, 'c) filter_fn) \<Rightarrow> string \<Rightarrow> ('x, 'c) filter_fn
    \<Rightarrow> go_error + (string \<rightharpoonup> ('x, 'c) filter_fn)" where
  "DefineFilter filters name fn =
     (if kind fn \<noteq> KFunc then Inl (ErrorString ''a filter must be a function'')
      else if NumIn fn < 1 then
        Inl (ErrorString ''a filter function must have at least one input'')
      else if NumOut fn > 2 then
        Inl (ErrorString ''a filter must be have one or two outputs'')
      else Inr (filters(name \<mapsto> fn)))"

subsection \<open>makeFilter\<close>

text \<open>
  \<^verbatim>\<open>reflect.Type.ConvertibleTo\<close> is a parameter \<open>conv\<close>: \<open>conv t u\<close> says that a value
  of type \<open>t\<close> is convertible to type \<open>u\<close>.
\<close>

definition isClosureInterfaceType :: "(rtype \<Rightarrow> rtype \<Rightarrow> bool) \<Rightarrow> rtype \<Rightarrow> bool" where
  "isClosureInterfaceType conv t =
     (let closureType = ClosureT; interfaceType = InterfaceT []
      in conv closureType t \<and> \<not> conv interfaceType t)"

text \<open>
  The deferred function of \<^verbatim>\<open>makeFilter\<close>: what a recovered panic value is turned
  into before it is raised again.
\<close>

fun recovered :: "go_error \<Rightarrow> go_error" where
  "recovered (GenericError m) = InterpreterError m"
| "recovered e = e"

definition with_recover :: "go_error + 'a \<Rightarrow> go_error + 'a" where
  "with_recover r = (case r of Inl e \<Rightarrow> Inl (recovered e) | Inr v \<Rightarrow> Inr v)"

text \<open>
  The loop over \<^verbatim>\<open>params\<close> (lines 63 to 73), from index \<open>i\<close> on, with the arguments
  collected so far. \<open>Parse\<close> is the expression parser, a parameter. Reading
  \<^verbatim>\<open>fr.Type().NumIn()\<close> panics when \<open>fr\<close> is not a function.
\<close>

fun collect_args ::
  "(rtype \<Rightarrow> rtype \<Rightarrow> bool) \<Rightarrow> (string \<Rightarrow> go_error + 'x) \<Rightarrow> ('x, 'c) filter_fn \<Rightarrow> 'c
    \<Rightarrow> nat \<Rightarrow> ('x, 'c) valueFn list \<Rightarrow> ('x, 'c) val list \<Rightarrow> go_error + ('x, 'c) val list" where
  "collect_args conv Parse fr ctx i [] args = Inr args"
| "collect_args conv Parse fr ctx i (param # params) args =
     (if kind fr \<noteq> KFunc then Inl ReflectPanic
      else if i + 1 < NumIn fr \<and> isClosureInterfaceType conv (ins fr ! (i + 1)) then
        (case param ctx of
           Inl e \<Rightarrow> Inl e
         | Inr (VString s) \<Rightarrow>
             (case Parse s of
                Inl err \<Rightarrow> Inl err
              | Inr expr \<Rightarrow>
                  collect_args conv Parse fr ctx (i + 1) params (args @ [VClosure expr ctx]))
         | Inr _ \<Rightarrow> Inl TypeAssertionError)
      else
        (case param ctx of
           Inl e \<Rightarrow> Inl e
         | Inr v \<Rightarrow> collect_args conv Parse fr ctx (i + 1) params (args @ [v])))"

text \<open>The type switch on the output (lines 78 to 83); \<^verbatim>\<open>string(out)\<close> keeps the bytes.\<close>

definition string_of_bytes :: "byte list \<Rightarrow> string" where
  "string_of_bytes bs = map (\<lambda>b. char_of (unat b)) bs"

definition bytes_of_string :: "string \<Rightarrow> byte list" where
  "bytes_of_string s = map (\<lambda>c. of_nat (of_char c)) s"

fun convert_output :: "('x, 'c) val \<Rightarrow> ('x, 'c) val" where
  "convert_output (VBytes out) = VString (string_of_bytes out)"
| "convert_output out = out"

text \<open>
  The body of the returned function without its deferred function. \<open>Call\<close> is
  \<^verbatim>\<open>generics.Call\<close>, a parameter: it panics (\<open>Inl\<close>) or returns \<^verbatim>\<open>(out, err)\<close>.
\<close>

definition filter_body ::
  "(rtype \<Rightarrow> rtype \<Rightarrow> bool) \<Rightarrow> (string \<Rightarrow> go_error + 'x)
    \<Rightarrow> (('x, 'c) filter_fn \<Rightarrow> ('x, 'c) val list \<Rightarrow> go_error + (('x, 'c) val \<times> go_error option))
    \<Rightarrow> ('x, 'c) filter_fn \<Rightarrow> ('x, 'c) valueFn \<Rightarrow> ('x, 'c) valueFn list \<Rightarrow> ('x, 'c) valueFn" where
  "filter_body conv Parse Call fr f params ctx =
     (case f ctx of
        Inl e \<Rightarrow> Inl e
      | Inr v \<Rightarrow>
          (case collect_args conv Parse fr ctx 0 params [v] of
             Inl e \<Rightarrow> Inl e
           | Inr args \<Rightarrow>
               (case Call fr args of
                  Inl e \<Rightarrow> Inl e
                | Inr (out, Some err) \<Rightarrow> Inl err
                | Inr (out, None) \<Rightarrow> Inr (convert_output out))))"

text \<open>
  \<^verbatim>\<open>makeFilter\<close> looks the name up in \<^verbatim>\<open>filters\<close> and panics, or returns the function
  that evaluates the filter application in a context.
\<close>

definition makeFilter ::
  "(rtype \<Rightarrow> rtype \<Rightarrow> bool) \<Rightarrow> (string \<Rightarrow> go_error + 'x)
    \<Rightarrow> (('x, 'c) filter_fn \<Rightarrow> ('x, 'c) val list \<Rightarrow> go_error + (('x, 'c) val \<times> go_error option))
    \<Rightarrow> (string \<rightharpoonup> ('x, 'c) filter_fn)
    \<Rightarrow> ('x, 'c) valueFn \<Rightarrow> string \<Rightarrow> ('x, 'c) valueFn list
    \<Rightarrow> go_error + ('x, 'c) valueFn" where
  "makeFilter conv Parse Call filters f name params =
     (case filters name of
        None \<Rightarrow> Inl (UndefinedFilter name)
      | Some fn \<Rightarrow>
          Inr (\<lambda>ctx. with_recover (filter_body conv Parse Call fn f params ctx)))"

subsection \<open>Calling the filter\<close>

text \<open>
  Modelled from the spec: \<^verbatim>\<open>generics.Call\<close>, the function of the repository that
  \<open>makeFilter\<close> hands the filter and the collected arguments to, is not among the
  sources. Section 4.D of the specification gives its steps: verify
  \<open>required \<le> len(args) \<le> required + optional\<close> for the evaluated arguments (the
  arguments after the input value), otherwise fail with \<open>FilterArityError\<close>; coerce
  each positional argument to the declared type of its parameter; invoke the filter.
  The arity information, derived at registration from the declared parameters of the
  callable, and the coercion of one value to one declared type are parameters
  \<open>arity\<close> and \<open>coerce\<close>.
\<close>

definition Call_spec ::
  "(('x, 'c) filter_fn \<Rightarrow> nat \<times> nat) \<Rightarrow> (rtype \<Rightarrow> ('x, 'c) val \<Rightarrow> ('x, 'c) val)
    \<Rightarrow> ('x, 'c) filter_fn \<Rightarrow> ('x, 'c) val list
    \<Rightarrow> go_error + (('x, 'c) val \<times> go_error option)" where
  "Call_spec arity coerce fr args =
     (case arity fr of (required, optional) \<Rightarrow>
        (let n = length args - 1 in
         if required \<le> n \<and> n \<le> required + optional then
           body fr (take 1 args @ map2 coerce (drop 1 (ins fr)) (drop 1 args))
         else Inr (VNil, Some (FilterArityError n required optional))))"

section \<open>Chunks (package chunks)\<close>

subsection \<open>The types of chunk.go\<close>

datatype ChunkType = TextChunkType | TagChunkType | ObjChunkType

record SourceInfo =
  Pathname :: string
  lineNo :: int

record Chunk =
  Type :: ChunkType
  SourceInfo :: SourceInfo
  Name :: string
  Parameters :: string
  Source :: string

subsection \<open>The scanner\<close>

text \<open>
  Modelled from the spec: the scanner, the function of the repository that builds
  the chunks, is not among the sources. Section 4.A of the specification describes
  it: a single forward pass that, at each position, matches \<open>{{\<close> or \<open>{%\<close> or falls
  back to a literal character. After \<open>{{\<close> it scans to the next \<open>}}\<close> and after \<open>{%\<close> to
  the next \<open>%}\<close>, reading a run between two single or two double quotes as opaque; the
  text between the markers is the interior. An unterminated \<open>{{\<close> or \<open>{%\<close> yields a
  \<open>ScanError\<close> with the location of the opening marker. The source of a chunk is the
  full original slice including the delimiters (section 3). The line number of a
  chunk is that of its first character, starting at 1.

  A \<open>-\<close> right after the opening marker or right before the closing marker is a
  whitespace-control marker and belongs to neither the name nor the arguments. Since
  the source of a chunk is the full original slice, the trimming that these markers
  ask for leaves the \<open>Source\<close> of the adjacent text chunks as it is.

  For an object chunk the arguments are the body between the markers. For a tag chunk
  the interior is split on the first run of whitespace after the name; as the comment
  of chunk.go has it for \<open>{% if 1 %}\<close>, the name is \<open>if\<close> and the arguments are \<open>1\<close>,
  without the whitespace around them.
\<close>

datatype ScanError = ScanError SourceInfo

datatype markup = ObjectMarkup | TagMarkup

datatype scan_mode = InText | InMarkup markup "char option"

definition is_space :: "char \<Rightarrow> bool" where
  "is_space c = (c = CHR '' '' \<or> c = CHR 0x09 \<or> c = CHR 0x0A \<or> c = CHR 0x0D)"

definition is_quote :: "char \<Rightarrow> bool" where
  "is_quote c = (c = CHR 0x27 \<or> c = CHR 0x22)"


fun opener :: "markup \<Rightarrow> string" where
  "opener ObjectMarkup = ''{{''"
| "opener TagMarkup = ''{%''"

fun closer :: "markup \<Rightarrow> string" where
  "closer ObjectMarkup = ''}}''"
| "closer TagMarkup = ''%}''"

definition strip_control :: "string \<Rightarrow> string" where
  "strip_control interior =
     (let s = (case interior of c # cs \<Rightarrow> if c = CHR ''-'' then cs else interior | [] \<Rightarrow> [])
      in if s \<noteq> [] \<and> last s = CHR ''-'' then butlast s else s)"

definition tag_name :: "string \<Rightarrow> string" where
  "tag_name inner = takeWhile (\<lambda>c. \<not> is_space c) (dropWhile is_space inner)"

definition tag_arguments :: "string \<Rightarrow> string" where
  "tag_arguments inner =
     rev (dropWhile is_space (rev
       (dropWhile is_space (dropWhile (\<lambda>c. \<not> is_space c) (dropWhile is_space inner)))))"

definition text_chunk :: "string \<Rightarrow> int \<Rightarrow> string \<Rightarrow> Chunk" where
  "text_chunk path line src =
     \<lparr>Type = TextChunkType, SourceInfo = \<lparr>Pathname = path, lineNo = line\<rparr>,
      Name = [], Parameters = [], Source = src\<rparr>"

fun markup_chunk :: "markup \<Rightarrow> string \<Rightarrow> int \<Rightarrow> string \<Rightarrow> Chunk" where
  "markup_chunk ObjectMarkup path line interior =
     \<lparr>Type = ObjChunkType, SourceInfo = \<lparr>Pathname = path, lineNo = line\<rparr>,
      Name = [], Parameters = strip_control interior,
      Source = opener ObjectMarkup @ interior @ closer ObjectMarkup\<rparr>"
| "markup_chunk TagMarkup path line interior =
     \<lparr>Type = TagChunkType, SourceInfo = \<lparr>Pathname = path, lineNo = line\<rparr>,
      Name = tag_name (strip_control interior),
      Parameters = tag_arguments (strip_control interior),
      Source = opener TagMarkup @ interior @ closer TagMarkup\<rparr>"

text \<open>The text read so far becomes a text chunk, unless there is none.\<close>

definition text_chunks :: "string \<Rightarrow> int \<Rightarrow> string \<Rightarrow> Chunk list" where
  "text_chunks path line src = (if src = [] then [] else [text_chunk path line src])"

definition emit :: "Chunk list \<Rightarrow> ScanError + Chunk list \<Rightarrow> ScanError + Chunk list" where
  "emit cs r = (case r of Inl e \<Rightarrow> Inl e | Inr rest \<Rightarrow> Inr (cs @ rest))"

definition advance :: "int \<Rightarrow> char \<Rightarrow> int" where
  "advance line c = (if c = CHR 0x0A then line + 1 else line)"

text \<open>
  Modelled from the spec: the single forward pass of section 4.A. Its arguments are
  the pathname, the mode, the characters of the current chunk read so far (for
  markup, those of the interior), the line on which the current chunk starts, the
  current line, and the input still to read.
\<close>

fun scan :: "string \<Rightarrow> scan_mode \<Rightarrow> string \<Rightarrow> int \<Rightarrow> int \<Rightarrow> string \<Rightarrow> ScanError + Chunk list" where
  "scan path InText acc start line [] = Inr (text_chunks path start acc)"
| "scan path InText acc start line [c] = Inr (text_chunks path start (acc @ [c]))"
| "scan path InText acc start line (c # d # cs) =
     (if c = CHR ''{'' \<and> d = CHR ''{'' then
        emit (text_chunks path start acc)
          (scan path (InMarkup ObjectMarkup None) [] line line cs)
      else if c = CHR ''{'' \<and> d = CHR ''%'' then
        emit (text_chunks path start acc)
          (scan path (InMarkup TagMarkup None) [] line line cs)
      else scan path InText (acc @ [c]) start (advance line c) (d # cs))"
| "scan path (InMarkup k q) acc start line [] =
     Inl (ScanError \<lparr>Pathname = path, lineNo = start\<rparr>)"
| "scan path (InMarkup k (Some quote)) acc start line (c # cs) =
     scan path (InMarkup k (if c = quote then None else Some quote)) (acc @ [c]) start
       (advance line c) cs"
| "scan path (InMarkup k None) acc start line [c] =
     Inl (ScanError \<lparr>Pathname = path, lineNo = start\<rparr>)"
| "scan path (InMarkup k None) acc start line (c # d # cs) =
     (if [c, d] = closer k then
        emit [markup_chunk k path start acc] (scan path InText [] line line cs)
      else scan path (InMarkup k (if is_quote c then Some c else None)) (acc @ [c]) start
             (advance line c) (d # cs))"

text \<open>
  Modelled from the spec: the scanner takes the raw template string and the pathname
  and returns the sequence of chunks, or a \<open>ScanError\<close>.
\<close>

definition Scan :: "string \<Rightarrow> string \<Rightarrow> ScanError + Chunk list" where
  "Scan data pathname = scan pathname InText [] 1 1 data"

text \<open>What the pass has read of the current chunk before its interior.\<close>

fun mode_opener :: "scan_mode \<Rightarrow> string" where
  "mode_opener InText = []"
| "mode_opener (InMarkup k q) = opener k"


subsection \<open>Sample data for the examples\<close>

text \<open>
  A convertibility relation: every type converts to itself and to \<^verbatim>\<open>interface{}\<close>, and
  the struct \<^verbatim>\<open>closure\<close> converts to every interface type whose methods are among
  \<open>Evaluate\<close> and \<open>Bind\<close>.
\<close>

definition sample_conv :: "rtype \<Rightarrow> rtype \<Rightarrow> bool" where
  "sample_conv t u =
     (t = u \<or> (case u of
                 InterfaceT ms \<Rightarrow> ms = [] \<or> (t = ClosureT \<and> set ms \<subseteq> {''Evaluate'', ''Bind''})
               | _ \<Rightarrow> False))"

text \<open>
  Expressions are kept as their source text; the empty text does not parse. A context
  binds names to strings.
\<close>

type_synonym sample_ctx = "(string \<times> string) list"

definition sample_parse :: "string \<Rightarrow> go_error + string" where
  "sample_parse s = (if s = [] then Inl (HostError ''syntax error'') else Inr s)"

definition variable :: "string \<Rightarrow> (string, sample_ctx) valueFn" where
  "variable x ctx = (case map_of ctx x of None \<Rightarrow> Inr VNil | Some s \<Rightarrow> Inr (VString s))"

definition literal :: "(string, sample_ctx) val \<Rightarrow> (string, sample_ctx) valueFn" where
  "literal v ctx = Inr v"

definition sample_call ::
  "(string, sample_ctx) filter_fn \<Rightarrow> (string, sample_ctx) val list
    \<Rightarrow> go_error + ((string, sample_ctx) val \<times> go_error option)" where
  "sample_call fr args = body fr args"

text \<open>
  Four filters and a value that is not a function: \<open>where_exp\<close> takes an array, a
  name and a closure and returns the arguments it was called with; \<open>divided_by\<close>
  returns a generic error and \<open>explode\<close> panics with a host error; \<open>inspect\<close> returns
  the bytes of \<open>hi\<close>.
\<close>

definition where_exp :: "(string, sample_ctx) filter_fn" where
  "where_exp = \<lparr>kind = KFunc,
     ins = [InterfaceT [], OtherT ''string'', InterfaceT [''Evaluate'']],
     outs = [InterfaceT []],
     body = (\<lambda>args. Inr (VList args, None))\<rparr>"

definition divided_by :: "(string, sample_ctx) filter_fn" where
  "divided_by = \<lparr>kind = KFunc,
     ins = [InterfaceT [], InterfaceT []],
     outs = [InterfaceT [], OtherT ''error''],
     body = (\<lambda>args. Inr (VNil, Some (GenericError ''division by zero'')))\<rparr>"

definition explode :: "(string, sample_ctx) filter_fn" where
  "explode = \<lparr>kind = KFunc,
     ins = [InterfaceT []],
     outs = [InterfaceT []],
     body = (\<lambda>args. Inl (HostError ''nil pointer dereference''))\<rparr>"

definition inspect :: "(string, sample_ctx) filter_fn" where
  "inspect = \<lparr>kind = KFunc,
     ins = [InterfaceT []],
     outs = [OtherT ''[]byte''],
     body = (\<lambda>args. Inr (VBytes [104, 105], None))\<rparr>"

definition not_a_function :: "(string, sample_ctx) filter_fn" where
  "not_a_function = \<lparr>kind = KOther, ins = [], outs = [], body = (\<lambda>args. Inl ReflectPanic)\<rparr>"

definition sample_filters :: "string \<rightharpoonup> (string, sample_ctx) filter_fn" where
  "sample_filters =
     [''where_exp'' \<mapsto> where_exp, ''divided_by'' \<mapsto> divided_by,
      ''explode'' \<mapsto> explode, ''inspect'' \<mapsto> inspect]"

text \<open>
  Every declared parameter after the input is required; coercion leaves values as
  they are.
\<close>

definition sample_arity :: "(string, sample_ctx) filter_fn \<Rightarrow> nat \<times> nat" where
  "sample_arity fr = (NumIn fr - 1, 0)"

definition sample_coerce :: "rtype \<Rightarrow> (string, sample_ctx) val \<Rightarrow> (string, sample_ctx) val" where
  "sample_coerce t v = v"

text \<open>The chunks of the template \<open>{% if 1 %}{{ a.b }}\<close> in the file \<open>page.html\<close>.\<close>

definition if_chunk :: Chunk where
  "if_chunk = \<lparr>Type = TagChunkType, SourceInfo = \<lparr>Pathname = ''page.html'', lineNo = 1\<rparr>,
     Name = ''if'', Parameters = ''1'', Source = ''{% if 1 %}''\<rparr>"

definition object_chunk :: Chunk where
  "object_chunk = \<lparr>Type = ObjChunkType, SourceInfo = \<lparr>Pathname = ''page.html'', lineNo = 1\<rparr>,
     Name = [], Parameters = '' a.b '', Source = ''{{ a.b }}''\<rparr>"

section \<open>Properties of the filter dispatcher\<close>

subsection \<open>DefineFilter: what is rejected and what is stored\<close>

text \<open>
  Claim C9. Registration panics whenever the callable is not a function, has fewer
  than one input parameter, or has more than two outputs; otherwise it stores the
  callable under the given name, replacing whatever the name was bound to, and leaves
  every other name as it was.
\<close>

theorem DefineFilter_rejects_or_stores:
  "(kind fn \<noteq> KFunc \<or> NumIn fn < 1 \<or> NumOut fn > 2
      \<longrightarrow> isl (DefineFilter filters name fn))
   \<and> (kind fn = KFunc \<and> 1 \<le> NumIn fn \<and> NumOut fn \<le> 2
      \<longrightarrow> (\<exists>filters'. DefineFilter filters name fn = Inr filters'
            \<and> filters' name = Some fn
            \<and> (\<forall>other. other \<noteq> name \<longrightarrow> filters' other = filters other)))"
  by (simp add: DefineFilter_def)

theorem DefineFilter_rejects_or_stores_witness:
  "kind not_a_function \<noteq> KFunc
   \<and> isl (DefineFilter sample_filters ''inspect'' not_a_function)
   \<and> kind where_exp = KFunc \<and> 1 \<le> NumIn where_exp \<and> NumOut where_exp \<le> 2
   \<and> (\<exists>filters'. DefineFilter sample_filters ''inspect'' where_exp = Inr filters'
         \<and> filters' ''inspect'' = Some where_exp
         \<and> filters' ''explode'' = sample_filters ''explode'')"
proof -
  have bad: "kind not_a_function \<noteq> KFunc"
    by (simp add: not_a_function_def)
  have good: "kind where_exp = KFunc \<and> 1 \<le> NumIn where_exp \<and> NumOut where_exp \<le> 2"
    by (simp add: where_exp_def NumIn_def NumOut_def)
  from bad DefineFilter_rejects_or_stores [of not_a_function sample_filters "''inspect''"]
  have rejected: "isl (DefineFilter sample_filters ''inspect'' not_a_function)"
    by blast
  from good DefineFilter_rejects_or_stores [of where_exp sample_filters "''inspect''"]
  obtain filters' where stored: "DefineFilter sample_filters ''inspect'' where_exp = Inr filters'"
      "filters' ''inspect'' = Some where_exp"
      "\<forall>other. other \<noteq> ''inspect'' \<longrightarrow> filters' other = sample_filters other"
    by blast
  from stored(3) have "filters' ''explode'' = sample_filters ''explode''"
    by simp
  with bad good rejected stored(1,2) show ?thesis
    by blast
qed

subsection \<open>Facts about the argument loop\<close>

lemma byte_of_char_of: "of_nat (unat b mod 256) = (b :: byte)"
proof -
  have "unat b < 2 ^ LENGTH(8)" by (rule unsigned_less)
  then have "unat b mod 256 = unat b" by simp
  then show ?thesis by simp
qed

lemma bytes_of_string_of_bytes: "bytes_of_string (string_of_bytes bs) = bs"
  by (induction bs) (simp_all add: bytes_of_string_def string_of_bytes_def byte_of_char_of)


lemma collect_args_extends:
  "collect_args conv Parse fr ctx i params args = Inr args' \<Longrightarrow>
     \<exists>rest. args' = args @ rest \<and> length rest = length params"
proof (induction params arbitrary: i args)
  case Nil
  then show ?case by simp
next
  case (Cons param params)
  from Cons.prems obtain x where
    "collect_args conv Parse fr ctx (i + 1) params (args @ [x]) = Inr args'"
    by (auto split: sum.splits val.splits if_splits)
  from Cons.IH [OF this] obtain rest
    where "args' = (args @ [x]) @ rest" "length rest = length params"
    by blast
  then have "args' = args @ (x # rest) \<and> length (x # rest) = length (param # params)"
    by simp
  then show ?case by blast
qed

lemma collect_args_length:
  "collect_args conv Parse fr ctx i params args = Inr args' \<Longrightarrow>
     length args' = length args + length params"
  using collect_args_extends by fastforce

lemma collect_args_nth:
  "collect_args conv Parse fr ctx i params args = Inr args' \<Longrightarrow> k < length params \<Longrightarrow>
     (if i + k + 1 < NumIn fr \<and> isClosureInterfaceType conv (ins fr ! (i + k + 1))
      then \<exists>s expr. (params ! k) ctx = Inr (VString s) \<and> Parse s = Inr expr
             \<and> args' ! (length args + k) = VClosure expr ctx
      else (params ! k) ctx = Inr (args' ! (length args + k)))"
proof (induction params arbitrary: i args k)
  case Nil
  then show ?case by simp
next
  case (Cons param params)
  show ?case
  proof (cases k)
    case 0
    from Cons.prems obtain x where
      step: "collect_args conv Parse fr ctx (i + 1) params (args @ [x]) = Inr args'"
      and x: "if i + 1 < NumIn fr \<and> isClosureInterfaceType conv (ins fr ! (i + 1))
              then \<exists>s expr. param ctx = Inr (VString s) \<and> Parse s = Inr expr
                     \<and> x = VClosure expr ctx
              else param ctx = Inr x"
      by (auto split: sum.splits val.splits if_splits)
    from collect_args_extends [OF step] obtain rest where "args' = (args @ [x]) @ rest"
      by blast
    then have "args' ! length args = x" by simp
    with x 0 show ?thesis by (auto split: if_splits)
  next
    case (Suc j)
    from Cons.prems obtain x where
      step: "collect_args conv Parse fr ctx (i + 1) params (args @ [x]) = Inr args'"
      by (auto split: sum.splits val.splits if_splits)
    from Cons.prems Suc have "j < length params" by simp
    from Cons.IH [OF step this] Suc show ?thesis by (auto split: if_splits)
  qed
qed

lemma makeFilter_Inr:
  "makeFilter conv Parse Call filters f name params = Inr g \<Longrightarrow> filters name = Some fr \<Longrightarrow>
     g = (\<lambda>ctx. with_recover (filter_body conv Parse Call fr f params ctx))"
  by (auto simp: makeFilter_def)

lemma filter_body_call:
  "f ctx = Inr v \<Longrightarrow> collect_args conv Parse fr ctx 0 params [v] = Inr args \<Longrightarrow>
     filter_body conv Parse Call fr f params ctx =
       (case Call fr args of
          Inl e \<Rightarrow> Inl e
        | Inr (out, Some err) \<Rightarrow> Inl err
        | Inr (out, None) \<Rightarrow> Inr (convert_output out))"
  by (simp add: filter_body_def)

subsection \<open>Errors raised by the filter\<close>

text \<open>
  Claim C2. When the invocation of the filter raises a generic error, by a panic or
  as the error it returns, evaluating the filter application raises an
  \<open>InterpreterError\<close> with the same message; any other error or panic value of the
  invocation is raised unchanged.
\<close>

theorem makeFilter_converts_generic_errors:
  assumes mk: "makeFilter conv Parse Call filters f name params = Inr g"
    and reg: "filters name = Some fr"
    and input: "f ctx = Inr v"
    and args: "collect_args conv Parse fr ctx 0 params [v] = Inr args"
    and raised: "Call fr args = Inl e \<or> Call fr args = Inr (out, Some e)"
  shows "(\<forall>m. e = GenericError m \<longrightarrow> g ctx = Inl (InterpreterError m))
       \<and> ((\<forall>m. e \<noteq> GenericError m) \<longrightarrow> g ctx = Inl e)"
proof -
  from raised have "filter_body conv Parse Call fr f params ctx = Inl e"
    by (auto simp: filter_body_call [where f = f and ctx = ctx, OF input args])
  with makeFilter_Inr [OF mk reg] have g: "g ctx = Inl (recovered e)"
    by (simp add: with_recover_def)
  show ?thesis
    by (cases e) (simp_all add: g)
qed

theorem makeFilter_converts_generic_errors_witness:
  "(\<exists>g. makeFilter sample_conv sample_parse sample_call sample_filters
           (literal (VInt 1)) ''divided_by'' [literal (VInt 0)] = Inr g
       \<and> sample_call divided_by [VInt 1, VInt 0]
           = Inr (VNil, Some (GenericError ''division by zero''))
       \<and> g [] = Inl (InterpreterError ''division by zero''))
   \<and> (\<exists>g. makeFilter sample_conv sample_parse sample_call sample_filters
           (literal (VInt 1)) ''explode'' [] = Inr g
       \<and> sample_call explode [VInt 1] = Inl (HostError ''nil pointer dereference'')
       \<and> g [] = Inl (HostError ''nil pointer dereference''))"
proof -
  obtain g where mk: "makeFilter sample_conv sample_parse sample_call sample_filters
      (literal (VInt 1)) ''divided_by'' [literal (VInt 0)] = Inr g"
    by (simp add: makeFilter_def sample_filters_def)
  have reg: "sample_filters ''divided_by'' = Some divided_by"
    by (simp add: sample_filters_def)
  have input: "literal (VInt 1) [] = Inr (VInt 1)"
    by (simp add: literal_def)
  have args: "collect_args sample_conv sample_parse divided_by [] 0 [literal (VInt 0)] [VInt 1]
      = Inr [VInt 1, VInt 0]"
    by (simp add: divided_by_def NumIn_def isClosureInterfaceType_def sample_conv_def literal_def)
  have raised: "sample_call divided_by [VInt 1, VInt 0]
      = Inr (VNil, Some (GenericError ''division by zero''))"
    by (simp add: sample_call_def divided_by_def)
  from makeFilter_converts_generic_errors [OF mk reg input args disjI2, OF raised]
  have one: "g [] = Inl (InterpreterError ''division by zero'')"
    by simp
  obtain h where mk': "makeFilter sample_conv sample_parse sample_call sample_filters
      (literal (VInt 1)) ''explode'' [] = Inr h"
    by (simp add: makeFilter_def sample_filters_def)
  have reg': "sample_filters ''explode'' = Some explode"
    by (simp add: sample_filters_def)
  have args': "collect_args sample_conv sample_parse explode [] 0 [] [VInt 1] = Inr [VInt 1]"
    by simp
  have raised': "sample_call explode [VInt 1] = Inl (HostError ''nil pointer dereference'')"
    by (simp add: sample_call_def explode_def)
  from makeFilter_converts_generic_errors [OF mk' reg' input args' disjI1, OF raised']
  have two: "h [] = Inl (HostError ''nil pointer dereference'')"
    by simp
  from mk raised one mk' raised' two show ?thesis
    by blast
qed

subsection \<open>The output of the filter\<close>

text \<open>
  Claim C6. When the filter returns a byte sequence without an error, evaluating the
  filter application returns the string that has exactly these bytes; every other
  value the filter returns is returned as it is.
\<close>

theorem makeFilter_output_bytes_to_string:
  assumes mk: "makeFilter conv Parse Call filters f name params = Inr g"
    and reg: "filters name = Some fr"
    and input: "f ctx = Inr v"
    and args: "collect_args conv Parse fr ctx 0 params [v] = Inr args"
    and returned: "Call fr args = Inr (out, None)"
  shows "(\<forall>bs. out = VBytes bs \<longrightarrow>
            g ctx = Inr (VString (string_of_bytes bs))
            \<and> bytes_of_string (string_of_bytes bs) = bs)
       \<and> ((\<forall>bs. out \<noteq> VBytes bs) \<longrightarrow> g ctx = Inr out)"
proof -
  from returned have "filter_body conv Parse Call fr f params ctx = Inr (convert_output out)"
    by (simp add: filter_body_call [where f = f and ctx = ctx, OF input args])
  with makeFilter_Inr [OF mk reg] have g: "g ctx = Inr (convert_output out)"
    by (simp add: with_recover_def)
  show ?thesis
    by (cases out) (simp_all add: g bytes_of_string_of_bytes)
qed

theorem makeFilter_output_bytes_to_string_witness:
  "(\<exists>g. makeFilter sample_conv sample_parse sample_call sample_filters
           (literal (VInt 1)) ''inspect'' [] = Inr g
       \<and> sample_call inspect [VInt 1] = Inr (VBytes [104, 105], None)
       \<and> g [] = Inr (VString ''hi''))
   \<and> (\<exists>g. makeFilter sample_conv sample_parse sample_call sample_filters
           (literal (VInt 1)) ''where_exp'' [] = Inr g
       \<and> sample_call where_exp [VInt 1] = Inr (VList [VInt 1], None)
       \<and> g [] = Inr (VList [VInt 1]))"
proof -
  have input: "literal (VInt 1) [] = Inr (VInt 1)"
    by (simp add: literal_def)
  obtain g where mk: "makeFilter sample_conv sample_parse sample_call sample_filters
      (literal (VInt 1)) ''inspect'' [] = Inr g"
    by (simp add: makeFilter_def sample_filters_def)
  have reg: "sample_filters ''inspect'' = Some inspect"
    by (simp add: sample_filters_def)
  have args: "collect_args sample_conv sample_parse inspect [] 0 [] [VInt 1] = Inr [VInt 1]"
    by simp
  have returned: "sample_call inspect [VInt 1] = Inr (VBytes [104, 105], None)"
    by (simp add: sample_call_def inspect_def)
  have hi: "string_of_bytes [104, 105] = ''hi''"
    by code_simp
  from makeFilter_output_bytes_to_string [OF mk reg input args returned] hi
  have one: "g [] = Inr (VString ''hi'')"
    by simp
  obtain h where mk': "makeFilter sample_conv sample_parse sample_call sample_filters
      (literal (VInt 1)) ''where_exp'' [] = Inr h"
    by (simp add: makeFilter_def sample_filters_def)
  have reg': "sample_filters ''where_exp'' = Some where_exp"
    by (simp add: sample_filters_def)
  have args': "collect_args sample_conv sample_parse where_exp [] 0 [] [VInt 1] = Inr [VInt 1]"
    by simp
  have returned': "sample_call where_exp [VInt 1] = Inr (VList [VInt 1], None)"
    by (simp add: sample_call_def where_exp_def)
  from makeFilter_output_bytes_to_string [OF mk' reg' input args' returned']
  have two: "h [] = Inr (VList [VInt 1])"
    by simp
  from mk returned one mk' returned' two show ?thesis
    by blast
qed

subsection \<open>A name without a filter\<close>

text \<open>
  Claim C3, as the code has it. When no filter is registered under the name,
  \<open>makeFilter\<close> itself fails with \<open>UndefinedFilter name\<close>: the failure is that of
  building the filter application, whatever the input and the parameters are, and no
  function to evaluate in a context is returned.
\<close>

theorem makeFilter_undefined_filter:
  assumes "filters name = None"
  shows "makeFilter conv Parse Call filters f name params = Inl (UndefinedFilter name)"
  using assms by (simp add: makeFilter_def)

theorem makeFilter_undefined_filter_witness:
  "sample_filters ''upcase'' = None
   \<and> makeFilter sample_conv sample_parse sample_call sample_filters
        (literal (VString ''Hello'')) ''upcase'' [] = Inl (UndefinedFilter ''upcase'')"
proof -
  have miss: "sample_filters ''upcase'' = None"
    by (simp add: sample_filters_def)
  from miss makeFilter_undefined_filter [where filters = sample_filters and name = "''upcase''", OF miss]
  show ?thesis
    by simp
qed

text \<open>
  The claim places the error in the render phase, that is, in the evaluation of the
  filter application in a context. For the unregistered name \<open>upcase\<close> there is nothing
  to evaluate: the result of \<open>makeFilter\<close> is the error, not a function of the context.
\<close>

theorem undefined_filter_not_raised_by_evaluation:
  "(case makeFilter sample_conv sample_parse sample_call sample_filters
           (literal (VString ''Hello'')) ''upcase'' [] of
      Inl e \<Rightarrow> e = UndefinedFilter ''upcase''
    | Inr g \<Rightarrow> False)"
  by (simp add: makeFilter_def sample_filters_def)

subsection \<open>Parameters of the closure type\<close>

text \<open>
  Claim C1, as the code has it. For a parameter of the filter whose declared type is
  the closure type, the dispatcher evaluates the argument in the current context; the
  value is a string, this string is parsed as an expression, and the closure of the
  parsed expression and the current context is what the filter is called with at
  that position.
\<close>

theorem closure_argument_is_evaluated_then_parsed:
  assumes mk: "makeFilter conv Parse Call filters f name params = Inr g"
    and reg: "filters name = Some fr"
    and input: "f ctx = Inr v"
    and args: "collect_args conv Parse fr ctx 0 params [v] = Inr args"
    and k: "k < length params"
    and declared: "k + 1 < NumIn fr" "isClosureInterfaceType conv (ins fr ! (k + 1))"
  shows "(\<exists>s expr. (params ! k) ctx = Inr (VString s) \<and> Parse s = Inr expr
            \<and> args ! (k + 1) = VClosure expr ctx)
       \<and> g ctx = with_recover
            (case Call fr args of
               Inl e \<Rightarrow> Inl e
             | Inr (out, Some err) \<Rightarrow> Inl err
             | Inr (out, None) \<Rightarrow> Inr (convert_output out))"
proof -
  from collect_args_nth [OF args k] declared
  have "\<exists>s expr. (params ! k) ctx = Inr (VString s) \<and> Parse s = Inr expr
          \<and> args ! (k + 1) = VClosure expr ctx"
    by simp
  moreover from makeFilter_Inr [OF mk reg]
  have "g ctx = with_recover
            (case Call fr args of
               Inl e \<Rightarrow> Inl e
             | Inr (out, Some err) \<Rightarrow> Inl err
             | Inr (out, None) \<Rightarrow> Inr (convert_output out))"
    by (simp add: filter_body_call [where f = f and ctx = ctx, OF input args])
  ultimately show ?thesis
    by blast
qed

theorem closure_argument_is_evaluated_then_parsed_witness:
  "(1::nat) < length [literal (VString ''item''), variable ''cond'']
   \<and> 1 + 1 < NumIn where_exp
   \<and> isClosureInterfaceType sample_conv (ins where_exp ! (1 + 1))
   \<and> collect_args sample_conv sample_parse where_exp [(''cond'', ''item.size > 2'')] 0
        [literal (VString ''item''), variable ''cond''] [VNil]
      = Inr [VNil, VString ''item'',
             VClosure ''item.size > 2'' [(''cond'', ''item.size > 2'')]]
   \<and> (\<exists>s expr. variable ''cond'' [(''cond'', ''item.size > 2'')] = Inr (VString s)
         \<and> sample_parse s = Inr expr
         \<and> VClosure ''item.size > 2'' [(''cond'', ''item.size > 2'')]
             = VClosure expr [(''cond'', ''item.size > 2'')])"
proof -
  obtain g where mk: "makeFilter sample_conv sample_parse sample_call sample_filters
      (literal VNil) ''where_exp'' [literal (VString ''item''), variable ''cond''] = Inr g"
    by (simp add: makeFilter_def sample_filters_def)
  have reg: "sample_filters ''where_exp'' = Some where_exp"
    by (simp add: sample_filters_def)
  have input: "literal VNil [(''cond'', ''item.size > 2'')] = Inr VNil"
    by (simp add: literal_def)
  have k: "(1::nat) < length [literal (VString ''item''), variable ''cond'']"
    by simp
  have declared: "1 + 1 < NumIn where_exp"
      "isClosureInterfaceType sample_conv (ins where_exp ! (1 + 1))"
    by (simp_all add: NumIn_def where_exp_def isClosureInterfaceType_def sample_conv_def)
  have args: "collect_args sample_conv sample_parse where_exp [(''cond'', ''item.size > 2'')] 0
        [literal (VString ''item''), variable ''cond''] [VNil]
      = Inr [VNil, VString ''item'',
             VClosure ''item.size > 2'' [(''cond'', ''item.size > 2'')]]"
    by (simp add: NumIn_def where_exp_def isClosureInterfaceType_def sample_conv_def
        literal_def variable_def sample_parse_def)
  from closure_argument_is_evaluated_then_parsed [OF mk reg input args k declared]
  have "\<exists>s expr. variable ''cond'' [(''cond'', ''item.size > 2'')] = Inr (VString s)
         \<and> sample_parse s = Inr expr
         \<and> VClosure ''item.size > 2'' [(''cond'', ''item.size > 2'')]
             = VClosure expr [(''cond'', ''item.size > 2'')]"
    by simp
  with k declared args show ?thesis
    by blast
qed

text \<open>
  The claim says that the argument is not evaluated and that its source text is
  parsed. The filter \<open>where_exp\<close> is applied to the arguments \<open>'item'\<close> and \<open>cond\<close>, a
  variable. Where the context binds \<open>cond\<close> to the string \<open>item.size > 2\<close>, the filter
  receives the closure of the expression \<open>item.size > 2\<close>, the value of the variable,
  not of the expression \<open>cond\<close>; where the context does not bind \<open>cond\<close>, its value
  is nil and the evaluation panics. Both outcomes depend on the value of the argument
  in the context.
\<close>

theorem closure_argument_value_decides:
  "(case makeFilter sample_conv sample_parse sample_call sample_filters
           (literal VNil) ''where_exp'' [literal (VString ''item''), variable ''cond''] of
      Inl e \<Rightarrow> False
    | Inr g \<Rightarrow>
        g [(''cond'', ''item.size > 2'')]
          = Inr (VList [VNil, VString ''item'',
                        VClosure ''item.size > 2'' [(''cond'', ''item.size > 2'')]])
        \<and> g [] = Inl TypeAssertionError)"
  by (simp add: makeFilter_def sample_filters_def with_recover_def filter_body_def
      NumIn_def where_exp_def isClosureInterfaceType_def sample_conv_def
      literal_def variable_def sample_parse_def sample_call_def)



subsection \<open>The number of arguments\<close>

text \<open>
  Claim C5. With the call of the filter as the specification describes it, a filter
  application whose arguments all evaluate fails with \<open>FilterArityError\<close> when their
  number is below the required count or above the required plus the optional count;
  within these bounds the outcome is that of the filter itself on the coerced
  arguments, so that the dispatcher raises no arity error.
\<close>

theorem makeFilter_arity_check:
  assumes mk: "makeFilter conv Parse (Call_spec arity coerce) filters f name params = Inr g"
    and reg: "filters name = Some fr"
    and input: "f ctx = Inr v"
    and args: "collect_args conv Parse fr ctx 0 params [v] = Inr args"
    and arity: "arity fr = (required, optional)"
  shows "(length params < required \<or> required + optional < length params \<longrightarrow>
            g ctx = Inl (FilterArityError (length params) required optional))
       \<and> (required \<le> length params \<and> length params \<le> required + optional \<longrightarrow>
            g ctx = with_recover
              (case body fr (take 1 args @ map2 coerce (drop 1 (ins fr)) (drop 1 args)) of
                 Inl e \<Rightarrow> Inl e
               | Inr (out, Some err) \<Rightarrow> Inl err
               | Inr (out, None) \<Rightarrow> Inr (convert_output out)))"
proof -
  from collect_args_length [OF args] have n: "length args - Suc 0 = length params"
    by simp
  from makeFilter_Inr [OF mk reg]
  have g: "g ctx = with_recover
      (case Call_spec arity coerce fr args of
         Inl e \<Rightarrow> Inl e
       | Inr (out, Some err) \<Rightarrow> Inl err
       | Inr (out, None) \<Rightarrow> Inr (convert_output out))"
    by (simp add: filter_body_call [where f = f and ctx = ctx, OF input args])
  have outside: "g ctx = Inl (FilterArityError (length params) required optional)"
    if "length params < required \<or> required + optional < length params"
    using that by (auto simp: g Call_spec_def Let_def arity n with_recover_def)
  have inside: "g ctx = with_recover
      (case body fr (take 1 args @ map2 coerce (drop 1 (ins fr)) (drop 1 args)) of
         Inl e \<Rightarrow> Inl e
       | Inr (out, Some err) \<Rightarrow> Inl err
       | Inr (out, None) \<Rightarrow> Inr (convert_output out))"
    if "required \<le> length params \<and> length params \<le> required + optional"
    using that by (simp add: g Call_spec_def Let_def arity n)
  from outside inside show ?thesis
    by blast
qed

theorem makeFilter_arity_check_witness:
  "sample_arity where_exp = (2, 0)
   \<and> (\<exists>g. makeFilter sample_conv sample_parse (Call_spec sample_arity sample_coerce)
             sample_filters (literal VNil) ''where_exp'' [literal (VString ''item'')] = Inr g
         \<and> length [literal (VString ''item'')] < (2::nat)
         \<and> g [] = Inl (FilterArityError 1 2 0))
   \<and> (\<exists>g. makeFilter sample_conv sample_parse (Call_spec sample_arity sample_coerce)
             sample_filters (literal VNil) ''where_exp''
             [literal (VString ''item''), literal (VString ''item.ok'')] = Inr g
         \<and> g [] = Inr (VList [VNil, VString ''item'', VClosure ''item.ok'' []]))"
proof -
  have reg: "sample_filters ''where_exp'' = Some where_exp"
    by (simp add: sample_filters_def)
  have input: "literal VNil [] = Inr VNil"
    by (simp add: literal_def)
  have arity: "sample_arity where_exp = (2, 0)"
    by (simp add: sample_arity_def NumIn_def where_exp_def)
  obtain g where mk: "makeFilter sample_conv sample_parse (Call_spec sample_arity sample_coerce)
      sample_filters (literal VNil) ''where_exp'' [literal (VString ''item'')] = Inr g"
    by (simp add: makeFilter_def sample_filters_def)
  have args: "collect_args sample_conv sample_parse where_exp [] 0
      [literal (VString ''item'')] [VNil] = Inr [VNil, VString ''item'']"
    by (simp add: NumIn_def where_exp_def isClosureInterfaceType_def sample_conv_def literal_def)
  from makeFilter_arity_check [OF mk reg input args arity]
  have one: "g [] = Inl (FilterArityError 1 2 0)"
    by simp
  obtain h where mk': "makeFilter sample_conv sample_parse (Call_spec sample_arity sample_coerce)
      sample_filters (literal VNil) ''where_exp''
      [literal (VString ''item''), literal (VString ''item.ok'')] = Inr h"
    by (simp add: makeFilter_def sample_filters_def)
  have args': "collect_args sample_conv sample_parse where_exp [] 0
      [literal (VString ''item''), literal (VString ''item.ok'')] [VNil]
      = Inr [VNil, VString ''item'', VClosure ''item.ok'' []]"
    by (simp add: NumIn_def where_exp_def isClosureInterfaceType_def sample_conv_def
        literal_def sample_parse_def)
  from makeFilter_arity_check [OF mk' reg input args' arity]
  have two: "h [] = Inr (VList [VNil, VString ''item'', VClosure ''item.ok'' []])"
    by (simp add: where_exp_def sample_coerce_def with_recover_def)
  from arity mk one mk' two show ?thesis
    by force
qed

section \<open>Properties of the scanner\<close>

subsection \<open>Facts about the pass\<close>

lemma emit_Inr: "emit cs r = Inr out \<longleftrightarrow> (\<exists>rest. r = Inr rest \<and> out = cs @ rest)"
  by (auto simp: emit_def split: sum.splits)


lemma Source_markup_chunk: "Source (markup_chunk k path line interior) = opener k @ interior @ closer k"
  by (cases k) simp_all










lemma Source_text_chunks: "concat (map Source (text_chunks path line src)) = src"
  by (simp add: text_chunks_def text_chunk_def)

lemma scan_sources:
  "scan path m acc start line xs = Inr cs \<Longrightarrow>
     concat (map Source cs) = mode_opener m @ acc @ xs"
proof (induction path m acc start line xs arbitrary: cs rule: scan.induct)
  case (1 path acc start line)
  then show ?case by (auto simp: Source_text_chunks)
next
  case (2 path acc start line c)
  then show ?case by (auto simp: Source_text_chunks)
next
  case (3 path acc start line c d cs')
  then show ?case
    by (auto simp: emit_Inr Source_text_chunks split: if_splits)
next
  case (4 path k q acc start line)
  then show ?case by simp
next
  case (5 path k quote acc start line c cs')
  then show ?case by (auto split: if_splits)
next
  case (6 path k acc start line c)
  then show ?case by simp
next
  case (7 path k acc start line c d cs')
  then show ?case
    by (auto simp: emit_Inr Source_markup_chunk split: if_splits)
qed




lemma Scan_example:
  "Scan ''{% if 1 %}{{ a.b }}'' ''page.html'' = Inr [if_chunk, object_chunk]"
  by code_simp

subsection \<open>The sources of the chunks\<close>

text \<open>
  Claim C4. Whenever the scanner succeeds on an input, the sources of the chunks it
  produces, concatenated in their order, are the input.
\<close>

theorem Scan_sources_reconstruct_input:
  assumes "Scan data pathname = Inr chunks"
  shows "concat (map Source chunks) = data"
  using scan_sources [of pathname InText "[]" 1 1 data chunks] assms
  by (simp add: Scan_def)

theorem Scan_sources_reconstruct_input_witness:
  "Scan ''{% if 1 %}{{ a.b }}'' ''page.html'' = Inr [if_chunk, object_chunk]
   \<and> concat (map Source [if_chunk, object_chunk]) = ''{% if 1 %}{{ a.b }}''"
  using Scan_example Scan_sources_reconstruct_input [OF Scan_example]
  by simp

subsection \<open>The location of a chunk\<close>




subsection \<open>The kind, the name and the arguments of a chunk\<close>



end
